theory Spec2Isabelle
  imports Main "HOL-Library.AList"
begin

section \<open>Data model\<close>

text \<open>
  The objects of \<^verbatim>\<open>KubeClient.ts\<close>. \<^verbatim>\<open>ObjectKind\<close> picks \<^verbatim>\<open>apiVersion\<close> and
  \<^verbatim>\<open>kind\<close>, \<^verbatim>\<open>ObjectHeader\<close> adds \<^verbatim>\<open>metadata\<close>; a record extension gives the same
  subtyping. An optional property is an \<open>option\<close>, \<open>None\<close> standing for
  \<^verbatim>\<open>undefined\<close>. The remaining own properties of a resource (its spec and status) are
  the opaque \<open>payload\<close>. The watch callback reads the object it receives through the
  cast \<^verbatim>\<open>apiObject as V1Status\<close>, so the properties \<^verbatim>\<open>code\<close>, \<^verbatim>\<open>reason\<close> and
  \<^verbatim>\<open>message\<close> of a status are optional properties of the same object.
\<close>

record error_body =
  code :: "int option"
  reason :: "string option"
  message :: "string option"

record v1_list_meta =
  resourceVersion :: "string option"

record object_kind =
  apiVersion :: string
  kind :: string

record v1_object_meta =
  namespace :: "string option"
  name :: string
  resourceVersion :: "string option"

record object_header = object_kind +
  metadata :: v1_object_meta

record kubernetes_object = object_header +
  payload :: "string option"
  code :: "int option"
  reason :: "string option"
  message :: "string option"

record kubernetes_list_object =
  items :: "kubernetes_object list"
  list_metadata :: "v1_list_meta option"

datatype kubernetes_event_type = ADDED | MODIFIED | DELETED | BOOKMARK | ERROR

text \<open>
  The values the code throws. \<open>TypeError\<close> is the engine's error for a property read
  or write on \<^verbatim>\<open>undefined\<close>; \<open>NotFound\<close> is \<^verbatim>\<open>new NotFound()\<close> of
  \<^verbatim>\<open>KubernetesError.ts\<close>; \<open>CacheAlreadyStarted\<close> is the \<^verbatim>\<open>Error\<close> of
  \<^verbatim>\<open>addListener\<close>; \<open>ClientError\<close> is an error object thrown by a collaborator (the
  resource client, a listener, another reader), with its message and its \<^verbatim>\<open>body\<close>
  property when it has one.
\<close>

datatype error =
    TypeError
  | NotFound
  | CacheAlreadyStarted
  | ClientError string "error_body option"

datatype promise = Pending | Resolved | Rejected error

text \<open>
  A listener is a callback of the caller's; the model knows its name and, for each
  event, whether the call returns (\<open>None\<close>) or throws.
\<close>

datatype watch_callback =
  WatchCallback (callback_name: string)
    (callback_outcome: "kubernetes_event_type \<Rightarrow> kubernetes_object \<Rightarrow> error option")

text \<open>What the cache does to the outside, in the order it does it.\<close>

datatype effect =
    ClientList "string option" "string option"
  | ClientGetAPIResourcePath "string option" "string option"
  | ClientWatch string "string option"
  | RequestAbort
  | ConsoleError string
  | ListenerCall string kubernetes_event_type kubernetes_object
  | ApiRead kubernetes_object

text \<open>
  The resource client, as the answers it gives: \<^verbatim>\<open>list\<close>, \<^verbatim>\<open>getAPIResourcePath\<close>,
  and whether \<^verbatim>\<open>watch\<close> opens the stream (\<open>None\<close>) or rejects.
\<close>

record kube_client =
  client_list :: "string option \<Rightarrow> string option \<Rightarrow> error + kubernetes_list_object"
  client_getAPIResourcePath :: "string option \<Rightarrow> string option \<Rightarrow> error + string"
  client_watch :: "string \<Rightarrow> string option \<Rightarrow> error option"

record type_metadata =
  lastResourceVersion :: "string option"
  resourcePath :: string

text \<open>
  The fields of \<^verbatim>\<open>DefaultCache\<close>. \<open>cache\<close> is an association list, since
  \<^verbatim>\<open>Object.keys(this.cache)\<close> enumerates it in insertion order; \<open>trace\<close> collects the
  effects.
\<close>

record default_cache =
  listeners :: "string \<rightharpoonup> watch_callback list"
  cache :: "(string \<times> (string \<rightharpoonup> kubernetes_object)) list"
  metadata :: "string \<rightharpoonup> type_metadata"
  cacheSync :: "promise option"
  trace :: "effect list"

definition new_DefaultCache :: default_cache where
  "new_DefaultCache =
     \<lparr>listeners = Map.empty, cache = [], metadata = Map.empty, cacheSync = None, trace = []\<rparr>"

section \<open>Helpers of the language and of the utility library\<close>

text \<open>
  \<^verbatim>\<open>has\<close> of the library \<^verbatim>\<open>@0cfg/utils-common\<close>: a value is present when it is
  neither \<^verbatim>\<open>undefined\<close> nor \<^verbatim>\<open>null\<close>.
\<close>

definition has :: "'a option \<Rightarrow> bool" where
  "has v = (v \<noteq> None)"

text \<open>\<^verbatim>\<open>String.prototype.split\<close> with a one-character separator.\<close>

fun js_split :: "char \<Rightarrow> string \<Rightarrow> string list" where
  "js_split c [] = [[]]"
| "js_split c (x # xs) =
     (if x = c then [] # js_split c xs
      else (case js_split c xs of [] \<Rightarrow> [[x]] | y # ys \<Rightarrow> (x # y) # ys))"

text \<open>\<^verbatim>\<open>Array.prototype.join\<close>: an \<^verbatim>\<open>undefined\<close> element prints as the empty string.\<close>

fun js_join :: "string \<Rightarrow> string option list \<Rightarrow> string" where
  "js_join sep [] = []"
| "js_join sep [x] = (case x of None \<Rightarrow> [] | Some v \<Rightarrow> v)"
| "js_join sep (x # y # zs) =
     (case x of None \<Rightarrow> [] | Some v \<Rightarrow> v) @ sep @ js_join sep (y # zs)"

text \<open>An index read of an array: \<^verbatim>\<open>undefined\<close> out of range.\<close>

definition js_index :: "'a list \<Rightarrow> nat \<Rightarrow> 'a option" where
  "js_index xs i = (if i < length xs then Some (xs ! i) else None)"

text \<open>A template literal prints an absent value as \<^verbatim>\<open>undefined\<close>.\<close>

definition js_string :: "string option \<Rightarrow> string" where
  "js_string v = (case v of None \<Rightarrow> ''undefined'' | Some x \<Rightarrow> x)"

text \<open>
  \<^verbatim>\<open>Object.assign(target, source)\<close>: every own property of the source overwrites the
  target's; an \<^verbatim>\<open>undefined\<close> source leaves the target as it is.
\<close>

definition Object_assign :: "kubernetes_object \<Rightarrow> kubernetes_object option \<Rightarrow> kubernetes_object" where
  "Object_assign target source =
     (case source of
        None \<Rightarrow> target
      | Some v \<Rightarrow>
          v\<lparr>payload := (case payload v of None \<Rightarrow> payload target | Some p \<Rightarrow> Some p),
            code := (case code v of None \<Rightarrow> code target | Some p \<Rightarrow> Some p),
            reason := (case reason v of None \<Rightarrow> reason target | Some p \<Rightarrow> Some p),
            message := (case message v of None \<Rightarrow> message target | Some p \<Rightarrow> Some p)\<rparr>)"

section \<open>Keys\<close>

definition groupVersionKindKey :: "'a object_kind_scheme \<Rightarrow> string" where
  "groupVersionKindKey object = js_join ''/'' [Some (apiVersion object), Some (kind object)]"

definition parseGroupVersionKind :: "string \<Rightarrow> string option \<times> string option" where
  "parseGroupVersionKind gvk = (let s = js_split CHR ''/'' gvk in (js_index s 0, js_index s 1))"

definition namespacedName :: "'a object_header_scheme \<Rightarrow> string" where
  "namespacedName object =
     js_join ''/'' [namespace (object_header.metadata object),
                    Some (name (object_header.metadata object))]"

definition resourceVersionExpiredReason :: string where
  "resourceVersionExpiredReason = ''Expired''"

definition resourceVersionExpiredCode :: int where
  "resourceVersionExpiredCode = 410"

section \<open>Errors of the client\<close>

text \<open>
  The \<^verbatim>\<open>body\<close> property of a thrown value. The errors the cache itself throws have
  none: \<^verbatim>\<open>NotFound\<close> keeps its payload under \<^verbatim>\<open>error\<close>.
\<close>

definition body_of :: "error \<Rightarrow> error_body option" where
  "body_of err = (case err of ClientError msg b \<Rightarrow> b | _ \<Rightarrow> None)"

definition isKubernetesError :: "error \<Rightarrow> bool" where
  "isKubernetesError object =
     (let body = body_of object in
      has body \<and>
      (case body of
         None \<Rightarrow> False
       | Some b \<Rightarrow> has (error_body.code b) \<and> has (error_body.reason b) \<and> has (error_body.message b)))"

definition isNotFoundError :: "error \<Rightarrow> bool" where
  "isNotFoundError err =
     (isKubernetesError err \<and>
      (case body_of err of None \<Rightarrow> False | Some b \<Rightarrow> error_body.code b = Some 404))"

section \<open>The cache\<close>

text \<open>
  A method that returns nothing and may throw gives \<open>(None, s')\<close> when it returns and
  \<open>(Some e, s')\<close> when it throws \<open>e\<close>; \<open>s'\<close> holds what it had written by then.
\<close>

definition then_do ::
  "error option \<times> 's \<Rightarrow> ('s \<Rightarrow> error option \<times> 's) \<Rightarrow> error option \<times> 's" where
  \<comment> \<open>two statements in sequence: when the first throws, the second does not run\<close>
  "then_do r f = (case r of (Some e, s) \<Rightarrow> (Some e, s) | (None, s) \<Rightarrow> f s)"

definition start :: "default_cache \<Rightarrow> default_cache" where
  \<comment> \<open>\<^verbatim>\<open>this.cacheSync = this.startSync()\<close>: the call of an async function gives a
      pending promise; what the flows do afterwards is \<open>startSync\<close> below.\<close>
  "start s = s\<lparr>cacheSync := Some Pending\<rparr>"

definition addListener ::
  "'a object_kind_scheme \<Rightarrow> watch_callback \<Rightarrow> default_cache \<Rightarrow> error option \<times> default_cache" where
  "addListener object cb s =
     (if has (cacheSync s) then (Some CacheAlreadyStarted, s)
      else
        let gvk = groupVersionKindKey object;
            s1 = (if \<not> has (listeners s gvk)
                  then s\<lparr>listeners := (listeners s)(gvk \<mapsto> []),
                         cache := AList.update gvk Map.empty (cache s)\<rparr>
                  else s)
        in (case listeners s1 gvk of
              None \<Rightarrow> (Some TypeError, s1)
            | Some ls \<Rightarrow> (None, s1\<lparr>listeners := (listeners s1)(gvk \<mapsto> ls @ [cb])\<rparr>)))"

text \<open>
  The guard of \<^verbatim>\<open>get\<close> is \<^verbatim>\<open>!has(this.cache[gvk] || !has(this.cache[gvk][key]))\<close>:
  the closing parenthesis of the first \<^verbatim>\<open>has\<close> comes after the whole disjunction.
  \<open>get_guard\<close> is the value of that disjunction. When \<^verbatim>\<open>this.cache[gvk]\<close> is an object
  it is truthy and \<^verbatim>\<open>||\<close> yields it; when it is \<^verbatim>\<open>undefined\<close> the right operand is
  evaluated, which reads a property of \<^verbatim>\<open>this.cache[gvk]\<close>.
\<close>

datatype guard_value = IndexObject "string \<rightharpoonup> kubernetes_object" | Boolean bool

definition get_guard :: "default_cache \<Rightarrow> string \<Rightarrow> string \<Rightarrow> error + guard_value option" where
  "get_guard s gvk key =
     (case map_of (cache s) gvk of
        Some index \<Rightarrow> Inr (Some (IndexObject index))
      | None \<Rightarrow>
          (case map_of (cache s) gvk of
             None \<Rightarrow> Inl TypeError
           | Some index \<Rightarrow> Inr (Some (Boolean (\<not> has (index key))))))"

definition DefaultCache_get :: "kubernetes_object \<Rightarrow> default_cache \<Rightarrow> error + kubernetes_object" where
  "DefaultCache_get spec s =
     (let gvk = groupVersionKindKey spec in
      case get_guard s gvk (namespacedName spec) of
        Inl e \<Rightarrow> Inl e
      | Inr v \<Rightarrow>
          if \<not> has v then Inl NotFound
          else (case map_of (cache s) gvk of
                  None \<Rightarrow> Inl TypeError
                | Some index \<Rightarrow> Inr (Object_assign spec (index (namespacedName spec)))))"

definition waitForSync :: "default_cache \<Rightarrow> promise" where
  \<comment> \<open>\<^verbatim>\<open>return Promise.resolve(undefined)\<close>\<close>
  "waitForSync s = Resolved"

definition recordObjectAdded :: "kubernetes_object \<Rightarrow> default_cache \<Rightarrow> error option \<times> default_cache" where
  "recordObjectAdded obj s =
     (case map_of (cache s) (groupVersionKindKey obj) of
        None \<Rightarrow> (Some TypeError, s)
      | Some index \<Rightarrow>
          (None, s\<lparr>cache := AList.update (groupVersionKindKey obj)
                               (index(namespacedName obj \<mapsto> obj)) (cache s)\<rparr>))"

definition recordObjectModified :: "kubernetes_object \<Rightarrow> default_cache \<Rightarrow> error option \<times> default_cache" where
  "recordObjectModified obj s =
     (case map_of (cache s) (groupVersionKindKey obj) of
        None \<Rightarrow> (Some TypeError, s)
      | Some index \<Rightarrow>
          (None, s\<lparr>cache := AList.update (groupVersionKindKey obj)
                               (index(namespacedName obj \<mapsto> obj)) (cache s)\<rparr>))"

definition recordObjectDeleted :: "kubernetes_object \<Rightarrow> default_cache \<Rightarrow> error option \<times> default_cache" where
  "recordObjectDeleted obj s =
     (case map_of (cache s) (groupVersionKindKey obj) of
        None \<Rightarrow> (Some TypeError, s)
      | Some index \<Rightarrow>
          (None, s\<lparr>cache := AList.update (groupVersionKindKey obj)
                               (index(namespacedName obj := None)) (cache s)\<rparr>))"

text \<open>
  \<^verbatim>\<open>list.items.forEach(o => { this.cache[groupVersionKindKey(o)] = {}; this.recordObjectAdded(o); })\<close>
\<close>

fun forEach_items :: "kubernetes_object list \<Rightarrow> default_cache \<Rightarrow> error option \<times> default_cache" where
  "forEach_items [] s = (None, s)"
| "forEach_items (obj # objs) s =
     then_do
       (recordObjectAdded obj
          (s\<lparr>cache := AList.update (groupVersionKindKey obj) Map.empty (cache s)\<rparr>))
       (forEach_items objs)"

definition initializeCache :: "kube_client \<Rightarrow> string \<Rightarrow> default_cache \<Rightarrow> error option \<times> default_cache" where
  "initializeCache client gvk s =
     (let (apiVersion, kind) = parseGroupVersionKind gvk;
          s1 = s\<lparr>trace := trace s @ [ClientList apiVersion kind]\<rparr>
      in case client_list client apiVersion kind of
           Inl e \<Rightarrow> (Some e, s1)
         | Inr lst \<Rightarrow>
             (case list_metadata lst of
                None \<Rightarrow> (Some TypeError, s1)
              | Some lm \<Rightarrow>
                  let s2 = s1\<lparr>trace := trace s1 @ [ClientGetAPIResourcePath apiVersion kind]\<rparr>
                  in (case client_getAPIResourcePath client apiVersion kind of
                        Inl e \<Rightarrow> (Some e, s2)
                      | Inr path \<Rightarrow>
                          (let entry = \<lparr>lastResourceVersion = v1_list_meta.resourceVersion lm,
                                        resourcePath = path\<rparr>
                           in forEach_items (items lst)
                                (s2\<lparr>metadata := (metadata s2)(gvk \<mapsto> entry)\<rparr>)))))"

text \<open>\<^verbatim>\<open>this.listeners[gvk].forEach(l => l(type, apiObject, watchObject))\<close>: a listener
  that throws ends the loop.\<close>

fun forEach_listeners ::
  "watch_callback list \<Rightarrow> kubernetes_event_type \<Rightarrow> kubernetes_object \<Rightarrow> default_cache
     \<Rightarrow> error option \<times> default_cache" where
  "forEach_listeners [] type apiObject s = (None, s)"
| "forEach_listeners (l # ls) type apiObject s =
     (let s1 = s\<lparr>trace := trace s @ [ListenerCall (callback_name l) type apiObject]\<rparr>
      in case callback_outcome l type apiObject of
           Some e \<Rightarrow> (Some e, s1)
         | None \<Rightarrow> forEach_listeners ls type apiObject s1)"

text \<open>
  The statements of the watch callback after its \<^verbatim>\<open>switch\<close>. The guard
  \<^verbatim>\<open>has(apiObject) && has(apiObject.metadata)\<close> holds of every \<^verbatim>\<open>KubernetesObject\<close>,
  whose \<^verbatim>\<open>metadata\<close> is a required property.
\<close>

definition after_switch ::
  "string \<Rightarrow> kubernetes_event_type \<Rightarrow> kubernetes_object \<Rightarrow> default_cache
     \<Rightarrow> error option \<times> default_cache" where
  "after_switch gvk type apiObject s =
     (case metadata s gvk of
        None \<Rightarrow> (Some TypeError, s)
      | Some m \<Rightarrow>
          let entry = m\<lparr>lastResourceVersion :=
                          v1_object_meta.resourceVersion (object_header.metadata apiObject)\<rparr>;
              s1 = s\<lparr>metadata := (metadata s)(gvk \<mapsto> entry)\<rparr>
          in (case listeners s1 gvk of
                None \<Rightarrow> (Some TypeError, s1)
              | Some ls \<Rightarrow> forEach_listeners ls type apiObject s1))"

text \<open>The callback \<^verbatim>\<open>startWatch\<close> passes to \<^verbatim>\<open>client.watch\<close>, for the stream of \<open>gvk\<close>.\<close>

fun startWatch_callback ::
  "string \<Rightarrow> kubernetes_event_type \<Rightarrow> kubernetes_object \<Rightarrow> default_cache
     \<Rightarrow> error option \<times> default_cache" where
  "startWatch_callback gvk ADDED apiObject s =
     then_do (recordObjectAdded apiObject s) (after_switch gvk ADDED apiObject)"
| "startWatch_callback gvk MODIFIED apiObject s =
     then_do (recordObjectModified apiObject s) (after_switch gvk MODIFIED apiObject)"
| "startWatch_callback gvk DELETED apiObject s =
     then_do (recordObjectDeleted apiObject s) (after_switch gvk DELETED apiObject)"
| "startWatch_callback gvk ERROR apiObject s =
     (if code apiObject = Some resourceVersionExpiredCode
         \<and> reason apiObject = Some resourceVersionExpiredReason
      then (case metadata s gvk of
              None \<Rightarrow> (Some TypeError, s)
            | Some m \<Rightarrow>
                (None, s\<lparr>metadata := (metadata s)(gvk \<mapsto> m\<lparr>lastResourceVersion := None\<rparr>),
                         trace := trace s @ [RequestAbort]\<rparr>))
      else (None, s\<lparr>trace := trace s @
              [ConsoleError (''Error during watch: Reason: '' @ js_string (reason apiObject)
                 @ '' - '' @ js_string (message apiObject))]\<rparr>))"
| "startWatch_callback gvk BOOKMARK apiObject s =
     (None, s\<lparr>trace := trace s @ [ConsoleError ''Unknown kube watch event type: BOOKMARK'']\<rparr>)"

text \<open>
  \<^verbatim>\<open>startWatch\<close>, run until the stream is open (or until it throws). The test before
  the list is \<^verbatim>\<open>!has(this.metadata[gvk]) || has(this.metadata[gvk].lastResourceVersion)\<close>.
\<close>

text \<open>
  \<^verbatim>\<open>this.client.watch(this.metadata[gvk]!.resourcePath, {allowWatchBookmarks: false,
  resourceVersion: this.metadata[gvk]?.lastResourceVersion}, callback, done)\<close>
\<close>

definition open_watch :: "kube_client \<Rightarrow> string \<Rightarrow> default_cache \<Rightarrow> error option \<times> default_cache" where
  "open_watch client gvk s =
     (case metadata s gvk of
        None \<Rightarrow> (Some TypeError, s)
      | Some m \<Rightarrow>
          (client_watch client (resourcePath m) (lastResourceVersion m),
           s\<lparr>trace := trace s @ [ClientWatch (resourcePath m) (lastResourceVersion m)]\<rparr>))"

definition startWatch :: "kube_client \<Rightarrow> string \<Rightarrow> default_cache \<Rightarrow> error option \<times> default_cache" where
  "startWatch client gvk s =
     then_do
       (if (case metadata s gvk of None \<Rightarrow> True | Some m \<Rightarrow> has (lastResourceVersion m))
        then initializeCache client gvk s
        else (None, s))
       (open_watch client gvk)"

text \<open>
  The \<^verbatim>\<open>done\<close> callback of the stream: \<open>msg\<close> is the message of the fault, when the
  stream ended with one. It logs any fault but an abort and calls \<^verbatim>\<open>startWatch\<close> again.
\<close>

definition startWatch_done ::
  "kube_client \<Rightarrow> string \<Rightarrow> string option \<Rightarrow> default_cache \<Rightarrow> error option \<times> default_cache" where
  "startWatch_done client gvk msg s =
     startWatch client gvk
       (case msg of
          None \<Rightarrow> s
        | Some m \<Rightarrow>
            if m \<noteq> ''aborted''
            then s\<lparr>trace := trace s @
                   [ConsoleError (''Kubernetes watch of '' @ gvk @ '' disconnected: '' @ m)]\<rparr>
            else s)"

text \<open>
  \<^verbatim>\<open>Promise.all(Object.keys(this.cache).map(gvk => this.startWatch(gvk)))\<close>: every flow
  runs, in the order of the keys, and the first rejection is the result.
\<close>

fun startWatch_all :: "kube_client \<Rightarrow> string list \<Rightarrow> default_cache \<Rightarrow> error option \<times> default_cache" where
  "startWatch_all client [] s = (None, s)"
| "startWatch_all client (gvk # gvks) s =
     (case startWatch client gvk s of
        (r, s1) \<Rightarrow>
          (case startWatch_all client gvks s1 of
             (rs, s2) \<Rightarrow> ((case r of Some e \<Rightarrow> Some e | None \<Rightarrow> rs), s2)))"

definition startSync :: "kube_client \<Rightarrow> default_cache \<Rightarrow> error option \<times> default_cache" where
  "startSync client s = startWatch_all client (map fst (cache s)) s"

text \<open>Events of one stream, delivered in order; what a callback throws goes to the
  stream's library and the next event is delivered all the same.\<close>

fun deliver ::
  "string \<Rightarrow> (kubernetes_event_type \<times> kubernetes_object) list \<Rightarrow> default_cache \<Rightarrow> default_cache" where
  "deliver gvk [] s = s"
| "deliver gvk ((type, apiObject) # events) s =
     deliver gvk events (snd (startWatch_callback gvk type apiObject s))"

section \<open>The cache-backed client\<close>

text \<open>\<^verbatim>\<open>DefaultKubeClient.get\<close>: \<open>api_read\<close> is \<^verbatim>\<open>this.api.read\<close>, the remote read.\<close>

definition DefaultKubeClient_get ::
  "(kubernetes_object \<Rightarrow> error + kubernetes_object) \<Rightarrow> kubernetes_object
     \<Rightarrow> (error + kubernetes_object) \<times> effect list" where
  "DefaultKubeClient_get api_read spec =
     (case api_read spec of
        Inl e \<Rightarrow> (Inl e, [ApiRead spec])
      | Inr body \<Rightarrow> (Inr (Object_assign spec (Some body)), [ApiRead spec]))"

text \<open>\<^verbatim>\<open>CachedKubeClient.get\<close>: \<open>cache_get\<close> is the \<^verbatim>\<open>get\<close> of the reader it was built
  with. The second component lists the remote reads.\<close>

definition CachedKubeClient_get ::
  "(kubernetes_object \<Rightarrow> error + kubernetes_object) \<Rightarrow> (kubernetes_object \<Rightarrow> error + kubernetes_object)
     \<Rightarrow> kubernetes_object \<Rightarrow> (error + kubernetes_object) \<times> effect list" where
  "CachedKubeClient_get cache_get api_read spec =
     (case cache_get spec of
        Inr v \<Rightarrow> (Inr v, [])
      | Inl e \<Rightarrow>
          if isNotFoundError e then DefaultKubeClient_get api_read spec
          else (Inl e, []))"

section \<open>Definitions the claims are stated with\<close>

text \<open>
  The events that write the Index, and what one of them does to the Index of its type:
  \<^verbatim>\<open>ADDED\<close> and \<^verbatim>\<open>MODIFIED\<close> store the object under its key, \<^verbatim>\<open>DELETED\<close> removes the
  key.
\<close>

definition index_event :: "kubernetes_event_type \<Rightarrow> bool" where
  "index_event type = (type = ADDED \<or> type = MODIFIED \<or> type = DELETED)"

definition record_index ::
  "kubernetes_event_type \<Rightarrow> kubernetes_object \<Rightarrow> (string \<rightharpoonup> kubernetes_object) \<Rightarrow> (string \<rightharpoonup> kubernetes_object)" where
  "record_index t obj index =
     (if t = DELETED then index(namespacedName obj := None) else index(namespacedName obj \<mapsto> obj))"

text \<open>
  The convergence property in the specification's words: of all the events of a key only
  the latest counts; the key is absent when that event is a \<^verbatim>\<open>DELETED\<close>, and holds the
  event's object otherwise.
\<close>

definition latest_event ::
  "string \<Rightarrow> (kubernetes_event_type \<times> kubernetes_object) list \<Rightarrow> (kubernetes_event_type \<times> kubernetes_object) option" where
  "latest_event key events =
     (case filter (\<lambda>(type, obj). namespacedName obj = key) events of
        [] \<Rightarrow> None
      | e # es \<Rightarrow> Some (last (e # es)))"

definition replay_latest ::
  "(kubernetes_event_type \<times> kubernetes_object) list \<Rightarrow> (string \<rightharpoonup> kubernetes_object)" where
  "replay_latest events =
     (\<lambda>key. case latest_event key events of
              None \<Rightarrow> None
            | Some (type, obj) \<Rightarrow> if type = DELETED then None else Some obj)"

text \<open>The calls of \<^verbatim>\<open>client.list\<close> in a trace.\<close>

definition list_calls :: "effect list \<Rightarrow> effect list" where
  "list_calls effects = filter (\<lambda>e. case e of ClientList a k \<Rightarrow> True | _ \<Rightarrow> False) effects"

text \<open>
  The states of a cache after \<^verbatim>\<open>start()\<close>: the state \<^verbatim>\<open>start\<close> leaves, and every state
  a flow, an event, the end of a stream or a further call of \<^verbatim>\<open>addListener\<close> leads to
  from there.
\<close>

inductive after_start :: "default_cache \<Rightarrow> bool" where
  started: "after_start (start s)"
| flows: "after_start s \<Longrightarrow> after_start (snd (startSync client s))"
| flow: "after_start s \<Longrightarrow> after_start (snd (startWatch client gvk s))"
| event: "after_start s \<Longrightarrow> after_start (snd (startWatch_callback gvk type apiObject s))"
| stream_end: "after_start s \<Longrightarrow> after_start (snd (startWatch_done client gvk msg s))"
| register: "after_start s \<Longrightarrow> after_start (snd (addListener (object :: object_kind) cb s))"

section \<open>Example data\<close>

definition pod_kind :: object_kind where
  "pod_kind = \<lparr>apiVersion = ''v1'', kind = ''Pod''\<rparr>"

definition example_pod :: "string \<Rightarrow> string \<Rightarrow> string \<Rightarrow> kubernetes_object" where
  "example_pod n version content =
     \<lparr>apiVersion = ''v1'', kind = ''Pod'',
      object_header.metadata = \<lparr>namespace = Some ''default'', name = n, resourceVersion = Some version\<rparr>,
      payload = Some content, code = None, reason = None, message = None\<rparr>"

definition example_status :: "int \<Rightarrow> string \<Rightarrow> kubernetes_object" where
  "example_status c r =
     \<lparr>apiVersion = ''v1'', kind = ''Status'',
      object_header.metadata = \<lparr>namespace = None, name = [], resourceVersion = None\<rparr>,
      payload = None, code = Some c, reason = Some r, message = Some ''too old''\<rparr>"

definition example_bookmark :: "string \<Rightarrow> kubernetes_object" where
  "example_bookmark version =
     \<lparr>apiVersion = ''v1'', kind = ''Pod'',
      object_header.metadata = \<lparr>namespace = None, name = [], resourceVersion = Some version\<rparr>,
      payload = None, code = None, reason = None, message = None\<rparr>"

definition quiet_listener :: watch_callback where
  "quiet_listener = WatchCallback ''controller'' (\<lambda>type obj. None)"

definition faulty_listener :: watch_callback where
  "faulty_listener = WatchCallback ''faulty'' (\<lambda>type obj. Some (ClientError ''boom'' None))"

definition registered_cache :: default_cache where
  "registered_cache =
     \<lparr>listeners = [''v1/Pod'' \<mapsto> [faulty_listener]], cache = [(''v1/Pod'', Map.empty)],
      metadata = Map.empty, cacheSync = None, trace = []\<rparr>"

definition streaming_cache :: "string option \<Rightarrow> default_cache" where
  "streaming_cache token =
     \<lparr>listeners = [''v1/Pod'' \<mapsto> [faulty_listener]], cache = [(''v1/Pod'', Map.empty)],
      metadata = [''v1/Pod'' \<mapsto> \<lparr>lastResourceVersion = token, resourcePath = ''/api/v1/pods''\<rparr>],
      cacheSync = Some Pending, trace = []\<rparr>"

definition failing_client :: kube_client where
  "failing_client =
     \<lparr>client_list = (\<lambda>a k. Inl (ClientError ''unreachable'' None)),
      client_getAPIResourcePath = (\<lambda>a k. Inr ''/api/v1/pods''),
      client_watch = (\<lambda>path version. None)\<rparr>"

definition two_pods_client :: kube_client where
  "two_pods_client =
     \<lparr>client_list = (\<lambda>a k. Inr \<lparr>items = [example_pod ''a'' ''1'' ''x'', example_pod ''b'' ''2'' ''y''],
                                  list_metadata = Some \<lparr>v1_list_meta.resourceVersion = Some ''2''\<rparr>\<rparr>),
      client_getAPIResourcePath = (\<lambda>a k. Inr ''/api/v1/pods''),
      client_watch = (\<lambda>path version. None)\<rparr>"

section \<open>Basic facts\<close>

subsection \<open>Sequencing\<close>

lemma then_do_snd:
  "snd (then_do r f) = (case fst r of Some e \<Rightarrow> snd r | None \<Rightarrow> snd (f (snd r)))"
  by (cases r) (simp add: then_do_def split: option.splits)

lemma then_do_fst:
  "fst (then_do r f) = (case fst r of Some e \<Rightarrow> Some e | None \<Rightarrow> fst (f (snd r)))"
  by (cases r) (simp add: then_do_def split: option.splits)

lemma then_do_keeps:
  assumes "g (snd r) = g s" and "\<And>s1. g (snd (f s1)) = g s1"
  shows "g (snd (then_do r f)) = g s"
  using assms by (simp add: then_do_snd split: option.splits)

lemma then_do_None [simp]: "then_do (None, s) f = f s"
  by (simp add: then_do_def)

lemma then_do_Some [simp]: "then_do (Some e, s) f = (Some e, s)"
  by (simp add: then_do_def)

subsection \<open>Splitting and joining keys\<close>

lemma js_split_hd: "js_index (js_split c xs) 0 = Some (takeWhile (\<lambda>x. x \<noteq> c) xs)"
  by (induction xs) (auto simp: js_index_def split: list.splits)

lemma js_split_no_sep: "c \<notin> set xs \<Longrightarrow> js_split c xs = [xs]"
  by (induction xs) auto

lemma js_split_append: "c \<notin> set xs \<Longrightarrow> js_split c (xs @ c # ys) = xs # js_split c ys"
  by (induction xs) auto

lemma takeWhile_sep_append: "takeWhile (\<lambda>x. x \<noteq> c) (xs @ c # ys) = takeWhile (\<lambda>x. x \<noteq> c) xs"
  by (induction xs) auto

lemma groupVersionKindKey_eq: "groupVersionKindKey obj = apiVersion obj @ CHR ''/'' # kind obj"
  by (simp add: groupVersionKindKey_def)

lemma js_index_Suc: "js_index (x # xs) (Suc 0) = js_index xs 0"
  by (simp add: js_index_def)

subsection \<open>What each step leaves alone\<close>

lemma recordObject_frame:
  "cacheSync (snd (recordObjectAdded obj s)) = cacheSync s"
  "cacheSync (snd (recordObjectModified obj s)) = cacheSync s"
  "cacheSync (snd (recordObjectDeleted obj s)) = cacheSync s"
  "metadata (snd (recordObjectAdded obj s)) = metadata s"
  "metadata (snd (recordObjectModified obj s)) = metadata s"
  "metadata (snd (recordObjectDeleted obj s)) = metadata s"
  "trace (snd (recordObjectAdded obj s)) = trace s"
  by (simp_all add: recordObjectAdded_def recordObjectModified_def recordObjectDeleted_def
      split: option.splits)

lemma forEach_listeners_frame:
  "cache (snd (forEach_listeners ls t obj s)) = cache s \<and>
   metadata (snd (forEach_listeners ls t obj s)) = metadata s \<and>
   listeners (snd (forEach_listeners ls t obj s)) = listeners s \<and>
   cacheSync (snd (forEach_listeners ls t obj s)) = cacheSync s"
  by (induction ls arbitrary: s) (auto simp: Let_def split: option.splits)

lemma after_switch_frame:
  "cache (snd (after_switch gvk t obj s)) = cache s \<and>
   listeners (snd (after_switch gvk t obj s)) = listeners s \<and>
   cacheSync (snd (after_switch gvk t obj s)) = cacheSync s"
  by (simp add: after_switch_def Let_def forEach_listeners_frame split: option.splits)

lemma forEach_items_frame:
  "cacheSync (snd (forEach_items objs s)) = cacheSync s \<and>
   metadata (snd (forEach_items objs s)) = metadata s \<and>
   trace (snd (forEach_items objs s)) = trace s"
proof (induction objs arbitrary: s)
  case Nil
  then show ?case by simp
next
  case (Cons obj objs)
  let ?s0 = "s\<lparr>cache := AList.update (groupVersionKindKey obj) Map.empty (cache s)\<rparr>"
  have "cacheSync (snd (forEach_items (obj # objs) s)) = cacheSync s"
    unfolding forEach_items.simps
    by (rule then_do_keeps) (simp_all add: recordObject_frame Cons.IH)
  moreover have "metadata (snd (forEach_items (obj # objs) s)) = metadata s"
    unfolding forEach_items.simps
    by (rule then_do_keeps) (simp_all add: recordObject_frame Cons.IH)
  moreover have "trace (snd (forEach_items (obj # objs) s)) = trace s"
    unfolding forEach_items.simps
    by (rule then_do_keeps) (simp_all add: recordObject_frame Cons.IH)
  ultimately show ?case by simp
qed

lemma initializeCache_cacheSync: "cacheSync (snd (initializeCache client gvk s)) = cacheSync s"
  by (simp add: initializeCache_def Let_def forEach_items_frame
      split: prod.splits sum.splits option.splits)

lemma open_watch_frame:
  "cacheSync (snd (open_watch client gvk s)) = cacheSync s \<and>
   metadata (snd (open_watch client gvk s)) = metadata s \<and>
   cache (snd (open_watch client gvk s)) = cache s"
  by (simp add: open_watch_def split: option.splits)

lemma startWatch_cacheSync: "cacheSync (snd (startWatch client gvk s)) = cacheSync s"
  unfolding startWatch_def
  by (rule then_do_keeps) (simp_all add: initializeCache_cacheSync open_watch_frame)

lemma startWatch_done_cacheSync: "cacheSync (snd (startWatch_done client gvk msg s)) = cacheSync s"
  by (simp add: startWatch_done_def startWatch_cacheSync split: option.splits)

lemma startWatch_all_snd:
  "snd (startWatch_all client (gvk # gvks) s) =
     snd (startWatch_all client gvks (snd (startWatch client gvk s)))"
  by (simp split: prod.splits)

lemma startWatch_all_fst:
  "fst (startWatch_all client (gvk # gvks) s) =
     (case fst (startWatch client gvk s) of
        Some e \<Rightarrow> Some e
      | None \<Rightarrow> fst (startWatch_all client gvks (snd (startWatch client gvk s))))"
  by (cases "startWatch client gvk s"; cases "startWatch_all client gvks (snd (startWatch client gvk s))")
    (simp split: option.splits)

lemma startWatch_all_cacheSync: "cacheSync (snd (startWatch_all client gvks s)) = cacheSync s"
proof (induction gvks arbitrary: s)
  case Nil
  then show ?case by simp
next
  case (Cons gvk gvks)
  show ?case unfolding startWatch_all_snd by (simp add: Cons.IH startWatch_cacheSync)
qed

lemma startSync_cacheSync: "cacheSync (snd (startSync client s)) = cacheSync s"
  by (simp add: startSync_def startWatch_all_cacheSync)

lemma callback_cacheSync: "cacheSync (snd (startWatch_callback gvk type obj s)) = cacheSync s"
proof (cases type)
  case ADDED
  show ?thesis unfolding ADDED startWatch_callback.simps
    by (rule then_do_keeps) (simp_all add: recordObject_frame after_switch_frame)
next
  case MODIFIED
  show ?thesis unfolding MODIFIED startWatch_callback.simps
    by (rule then_do_keeps) (simp_all add: recordObject_frame after_switch_frame)
next
  case DELETED
  show ?thesis unfolding DELETED startWatch_callback.simps
    by (rule then_do_keeps) (simp_all add: recordObject_frame after_switch_frame)
next
  case BOOKMARK
  then show ?thesis by simp
next
  case ERROR
  then show ?thesis by (simp split: option.splits)
qed

subsection \<open>The example data\<close>

lemma registered_cache_eq:
  "snd (addListener pod_kind faulty_listener new_DefaultCache) = registered_cache"
  by (simp add: addListener_def new_DefaultCache_def registered_cache_def pod_kind_def has_def
      groupVersionKindKey_def Let_def)

lemma gvk_pod [simp]: "groupVersionKindKey (example_pod n v c) = ''v1/Pod''"
  by (simp add: groupVersionKindKey_def example_pod_def)

lemma name_pod [simp]: "namespacedName (example_pod n v c) = ''default/'' @ n"
  by (simp add: namespacedName_def example_pod_def)

lemma parse_pod [simp]: "parseGroupVersionKind ''v1/Pod'' = (Some ''v1'', Some ''Pod'')"
  by (simp add: parseGroupVersionKind_def js_index_def)

section \<open>Readiness\<close>

lemma initializeCache_list_fails:
  assumes "\<And>a k. client_list client a k = Inl e"
  shows "initializeCache client gvk s =
           (Some e, s\<lparr>trace := trace s @
              [ClientList (fst (parseGroupVersionKind gvk)) (snd (parseGroupVersionKind gvk))]\<rparr>)"
  by (simp add: initializeCache_def Let_def assms split: prod.splits)

lemma startWatch_list_fails_metadata:
  assumes "\<And>a k. client_list client a k = Inl e"
  shows "metadata (snd (startWatch client gvk s)) = metadata s"
  unfolding startWatch_def
  by (rule then_do_keeps) (simp_all add: initializeCache_list_fails [OF assms] open_watch_frame)

lemma startWatch_list_fails_unlisted:
  assumes "\<And>a k. client_list client a k = Inl e" and "metadata s gvk = None"
  shows "fst (startWatch client gvk s) = Some e"
  using assms(2) by (simp add: startWatch_def initializeCache_list_fails [OF assms(1)])

lemma startWatch_all_list_fails:
  assumes "\<And>a k. client_list client a k = Inl e"
  shows "metadata (snd (startWatch_all client gvks s)) = metadata s"
proof (induction gvks arbitrary: s)
  case Nil
  then show ?case by simp
next
  case (Cons gvk gvks)
  show ?case unfolding startWatch_all_snd
    by (simp add: Cons.IH startWatch_list_fails_metadata [OF assms])
qed

lemma startWatch_all_rejects:
  assumes "\<And>a k. client_list client a k = Inl e"
    and "metadata s gvk = None" and "gvk \<in> set gvks"
  shows "fst (startWatch_all client gvks s) \<noteq> None"
  using assms(2,3)
proof (induction gvks arbitrary: s)
  case Nil
  then show ?case by simp
next
  case (Cons g gvks)
  show ?case
  proof (cases "fst (startWatch client g s)")
    case (Some x)
    then show ?thesis unfolding startWatch_all_fst by simp
  next
    case None
    with startWatch_list_fails_unlisted [OF assms(1), of s g] Cons.prems
    have "g \<noteq> gvk" by auto
    with Cons.prems have in_rest: "gvk \<in> set gvks" by simp
    have "metadata (snd (startWatch client g s)) gvk = None"
      by (simp add: startWatch_list_fails_metadata [OF assms(1)] Cons.prems(1))
    from Cons.IH [OF this in_rest] None show ?thesis unfolding startWatch_all_fst by simp
  qed
qed

text \<open>
  Claim C1 says that the promise \<^verbatim>\<open>waitForSync\<close> returns resolves only after every
  registered type has completed a successful full list, and never when a first list
  fails. The method returns \<^verbatim>\<open>Promise.resolve(undefined)\<close> and never looks at
  \<^verbatim>\<open>cacheSync\<close>, the promise \<^verbatim>\<open>start\<close> stored for it. So the claim does not hold of the
  code: when every list call of the client fails and a registered type \<open>gvk\<close> has no
  metadata yet, the flows started by \<^verbatim>\<open>start\<close> end with a rejection, \<open>gvk\<close> still has no
  metadata (no list of it has succeeded), and the promise of \<^verbatim>\<open>waitForSync\<close> is resolved
  all the same.
\<close>

theorem waitForSync_resolved_without_list:
  assumes "\<And>a k. client_list client a k = Inl e"
    and "metadata s gvk = None" and "gvk \<in> fst ` set (cache s)"
  shows "fst (startSync client (start s)) \<noteq> None
       \<and> metadata (snd (startSync client (start s))) gvk = None
       \<and> waitForSync (snd (startSync client (start s))) = Resolved"
proof -
  have m: "metadata (start s) gvk = None" using assms(2) by (simp add: start_def)
  have k: "gvk \<in> set (map fst (cache (start s)))" using assms(3) by (simp add: start_def)
  have "fst (startSync client (start s)) \<noteq> None"
    unfolding startSync_def by (rule startWatch_all_rejects [OF assms(1) m k])
  moreover have "metadata (snd (startSync client (start s))) gvk = None"
    by (simp add: startSync_def startWatch_all_list_fails [OF assms(1)] m)
  ultimately show ?thesis by (simp add: waitForSync_def)
qed

theorem waitForSync_resolved_without_list_witness:
  "fst (startSync failing_client (start registered_cache)) \<noteq> None
 \<and> metadata (snd (startSync failing_client (start registered_cache))) ''v1/Pod'' = None
 \<and> waitForSync (snd (startSync failing_client (start registered_cache))) = Resolved"
proof -
  have l: "\<And>a k. client_list failing_client a k = Inl (ClientError ''unreachable'' None)"
    by (simp add: failing_client_def)
  have m: "metadata registered_cache ''v1/Pod'' = None" by (simp add: registered_cache_def)
  have k: "''v1/Pod'' \<in> fst ` set (cache registered_cache)" by (simp add: registered_cache_def)
  show ?thesis by (rule waitForSync_resolved_without_list [OF l m k])
qed

section \<open>The full list\<close>

lemma forEach_items_last:
  assumes "objs \<noteq> []" and "list_all (\<lambda>obj. groupVersionKindKey obj = gvk) objs"
  shows "fst (forEach_items objs s) = None \<and>
         map_of (cache (snd (forEach_items objs s))) gvk
           = Some [namespacedName (last objs) \<mapsto> last objs]"
  using assms
proof (induction objs arbitrary: s)
  case Nil
  then show ?case by simp
next
  case (Cons obj objs)
  let ?s1 = "s\<lparr>cache := AList.update gvk [namespacedName obj \<mapsto> obj]
                 (AList.update gvk Map.empty (cache s))\<rparr>"
  from Cons.prems have k: "groupVersionKindKey obj = gvk"
    and rest: "list_all (\<lambda>obj. groupVersionKindKey obj = gvk) objs" by simp_all
  have step: "forEach_items (obj # objs) s = forEach_items objs ?s1"
    using k by (simp add: recordObjectAdded_def update_conv')
  show ?case
  proof (cases "objs = []")
    case True
    then show ?thesis unfolding step by (simp add: update_conv' fun_upd_def)
  next
    case False
    from Cons.IH [OF False rest, of ?s1] False show ?thesis unfolding step by simp
  qed
qed

text \<open>
  Claim C2 says that after a successful full list the Index of the type holds exactly the
  instances the list returned, all earlier entries replaced. \<^verbatim>\<open>initializeCache\<close> empties
  the Index of the type inside the loop over the items, once before each item, so the
  claim does not hold of the code: after a successful list whose items all belong to the
  type, the Index of the type holds the last item only, and a list with no items leaves
  the earlier entries in place.
\<close>

theorem initializeCache_keeps_last_item_only:
  assumes "parseGroupVersionKind gvk = (a, k)"
    and "client_list client a k = Inr lst"
    and "list_metadata lst = Some lm"
    and "client_getAPIResourcePath client a k = Inr path"
    and "list_all (\<lambda>obj. groupVersionKindKey obj = gvk) (items lst)"
  shows "map_of (cache (snd (initializeCache client gvk s))) gvk =
           (if items lst = [] then map_of (cache s) gvk
            else Some [namespacedName (last (items lst)) \<mapsto> last (items lst)])"
proof (cases "items lst = []")
  case True
  with assms(1-4) show ?thesis by (simp add: initializeCache_def Let_def)
next
  case False
  let ?s2 = "s\<lparr>trace := trace s @ [ClientList a k]\<rparr>\<lparr>trace := trace (s\<lparr>trace := trace s @ [ClientList a k]\<rparr>) @ [ClientGetAPIResourcePath a k]\<rparr>"
  from assms(1-4) have "initializeCache client gvk s =
      forEach_items (items lst)
        (?s2\<lparr>metadata := (metadata ?s2)(gvk \<mapsto>
            \<lparr>lastResourceVersion = v1_list_meta.resourceVersion lm, resourcePath = path\<rparr>)\<rparr>)"
    by (simp add: initializeCache_def Let_def)
  with forEach_items_last [OF False assms(5)] False show ?thesis by simp
qed

theorem initializeCache_keeps_last_item_only_witness:
  "map_of (cache (snd (initializeCache two_pods_client ''v1/Pod'' registered_cache))) ''v1/Pod''
     = Some [''default/b'' \<mapsto> example_pod ''b'' ''2'' ''y'']"
proof -
  let ?lst = "\<lparr>items = [example_pod ''a'' ''1'' ''x'', example_pod ''b'' ''2'' ''y''],
              list_metadata = Some \<lparr>v1_list_meta.resourceVersion = Some ''2''\<rparr>\<rparr>"
  have 1: "parseGroupVersionKind ''v1/Pod'' = (Some ''v1'', Some ''Pod'')" by simp
  have 2: "client_list two_pods_client (Some ''v1'') (Some ''Pod'') = Inr ?lst"
    by (simp add: two_pods_client_def)
  have 3: "list_metadata ?lst = Some \<lparr>v1_list_meta.resourceVersion = Some ''2''\<rparr>" by simp
  have 4: "client_getAPIResourcePath two_pods_client (Some ''v1'') (Some ''Pod'') = Inr ''/api/v1/pods''"
    by (simp add: two_pods_client_def)
  have 5: "list_all (\<lambda>obj. groupVersionKindKey obj = ''v1/Pod'') (items ?lst)" by simp
  show ?thesis
    using initializeCache_keeps_last_item_only [OF 1 2 3 4 5, of registered_cache] by simp
qed

section \<open>Re-entering the loop\<close>

lemma list_calls_append [simp]: "list_calls (xs @ ys) = list_calls xs @ list_calls ys"
  by (simp add: list_calls_def)

lemma initializeCache_list_calls:
  "list_calls (trace (snd (initializeCache client gvk s))) =
     list_calls (trace s) @
       [ClientList (fst (parseGroupVersionKind gvk)) (snd (parseGroupVersionKind gvk))]"
  by (simp add: initializeCache_def Let_def forEach_items_frame list_calls_def
      split: prod.splits sum.splits option.splits)

lemma open_watch_list_calls:
  "list_calls (trace (snd (open_watch client gvk s))) = list_calls (trace s)"
  by (simp add: open_watch_def list_calls_def split: option.splits)

lemma startWatch_list_calls:
  "list_calls (trace (snd (startWatch client gvk s))) =
     list_calls (trace s) @
       (if (case metadata s gvk of None \<Rightarrow> True | Some m \<Rightarrow> has (lastResourceVersion m))
        then [ClientList (fst (parseGroupVersionKind gvk)) (snd (parseGroupVersionKind gvk))]
        else [])"
  by (simp add: startWatch_def then_do_snd open_watch_list_calls initializeCache_list_calls
      split: option.splits)

text \<open>
  Claim C3 says that when a stream ends and the loop re-enters, a stored resume token
  leads to a new stream without a list, and a cleared token to a fresh full list first.
  The test of \<^verbatim>\<open>startWatch\<close> has the second \<^verbatim>\<open>has\<close> without a negation, so the code does
  the opposite: for a type with metadata, the \<^verbatim>\<open>done\<close> callback makes one list call
  exactly when the token is present, and none when it is absent.
\<close>

theorem startWatch_lists_iff_token_present:
  assumes "metadata s gvk = Some m"
  shows "list_calls (trace (snd (startWatch_done client gvk msg s))) =
           list_calls (trace s) @
             (if has (lastResourceVersion m)
              then [ClientList (fst (parseGroupVersionKind gvk)) (snd (parseGroupVersionKind gvk))]
              else [])"
proof -
  let ?s1 = "(case msg of None \<Rightarrow> s
             | Some m \<Rightarrow> if m \<noteq> ''aborted''
                 then s\<lparr>trace := trace s @
                   [ConsoleError (''Kubernetes watch of '' @ gvk @ '' disconnected: '' @ m)]\<rparr>
                 else s)"
  have m1: "metadata ?s1 gvk = Some m" using assms by (simp split: option.splits)
  have t1: "list_calls (trace ?s1) = list_calls (trace s)"
    by (simp add: list_calls_def split: option.splits)
  have "startWatch_done client gvk msg s = startWatch client gvk ?s1"
    by (simp add: startWatch_done_def)
  then show ?thesis
    by (simp only: startWatch_list_calls m1 t1 option.case)
qed

theorem startWatch_lists_iff_token_present_witness:
  "list_calls (trace (snd (startWatch_done two_pods_client ''v1/Pod'' (Some ''aborted'')
       (streaming_cache None)))) = []
 \<and> list_calls (trace (snd (startWatch_done two_pods_client ''v1/Pod'' None
       (streaming_cache (Some ''5''))))) = [ClientList (Some ''v1'') (Some ''Pod'')]"
proof -
  have a: "metadata (streaming_cache None) ''v1/Pod''
             = Some \<lparr>lastResourceVersion = None, resourcePath = ''/api/v1/pods''\<rparr>"
    by (simp add: streaming_cache_def)
  have b: "metadata (streaming_cache (Some ''5'')) ''v1/Pod''
             = Some \<lparr>lastResourceVersion = Some ''5'', resourcePath = ''/api/v1/pods''\<rparr>"
    by (simp add: streaming_cache_def)
  have t: "\<And>token. trace (streaming_cache token) = []" by (simp add: streaming_cache_def)
  show ?thesis
    using startWatch_lists_iff_token_present [OF a, of two_pods_client "Some ''aborted''"]
      startWatch_lists_iff_token_present [OF b, of two_pods_client None]
    by (simp add: t has_def list_calls_def)
qed

section \<open>Reading the cache\<close>

text \<open>
  Claim C4 says that \<^verbatim>\<open>get\<close> fails with a not-found condition when the type was never
  registered or the key is absent from the Index, and returns the snapshot otherwise.
  With the parenthesis of its guard misplaced, \<^verbatim>\<open>get\<close> never throws \<^verbatim>\<open>NotFound\<close>: for
  a type that is not in the Index it throws a \<open>TypeError\<close>, and for a type that is, it
  returns, with the snapshot assigned when the key is present and with the passed object
  unchanged when it is absent.
\<close>

theorem DefaultCache_get_never_not_found:
  "DefaultCache_get spec s \<noteq> Inl NotFound
 \<and> DefaultCache_get spec s =
     (case map_of (cache s) (groupVersionKindKey spec) of
        None \<Rightarrow> Inl TypeError
      | Some index \<Rightarrow> Inr (Object_assign spec (index (namespacedName spec))))"
  by (simp add: DefaultCache_get_def get_guard_def has_def Let_def split: option.splits)

theorem DefaultCache_get_never_not_found_witness:
  "DefaultCache_get (example_pod ''a'' ''1'' ''x'') registered_cache = Inr (example_pod ''a'' ''1'' ''x'')
 \<and> DefaultCache_get (example_pod ''a'' ''1'' ''x'') new_DefaultCache = Inl TypeError"
  using DefaultCache_get_never_not_found [of "example_pod ''a'' ''1'' ''x''" registered_cache]
    DefaultCache_get_never_not_found [of "example_pod ''a'' ''1'' ''x''" new_DefaultCache]
  by (simp add: registered_cache_def new_DefaultCache_def Object_assign_def)

section \<open>Events of a stream\<close>

lemma callback_index_event_eq:
  assumes "index_event type"
    and "map_of (cache s) (groupVersionKindKey apiObject) = Some index"
  shows "startWatch_callback gvk type apiObject s =
           after_switch gvk type apiObject
             (s\<lparr>cache := AList.update (groupVersionKindKey apiObject)
                             (record_index type apiObject index) (cache s)\<rparr>)"
  using assms
  by (auto simp: index_event_def recordObjectAdded_def recordObjectModified_def
      recordObjectDeleted_def record_index_def)

lemma callback_cache:
  assumes "index_event type"
    and "map_of (cache s) (groupVersionKindKey apiObject) = Some index"
  shows "cache (snd (startWatch_callback gvk type apiObject s)) =
           AList.update (groupVersionKindKey apiObject) (record_index type apiObject index) (cache s)"
  by (simp add: callback_index_event_eq [OF assms] after_switch_frame)

lemma latest_event_Cons:
  "latest_event key (e # es) =
     (case latest_event key es of
        Some x \<Rightarrow> Some x
      | None \<Rightarrow> if namespacedName (snd e) = key then Some e else None)"
  by (cases e) (auto simp: latest_event_def split: list.splits)

lemma deliver_index:
  assumes "map_of (cache s) gvk = Some index"
    and "list_all (\<lambda>(type, obj). index_event type \<and> groupVersionKindKey obj = gvk) events"
  shows "map_of (cache (deliver gvk events s)) gvk =
           Some (\<lambda>key. case latest_event key events of
                          None \<Rightarrow> index key
                        | Some (type, obj) \<Rightarrow> if type = DELETED then None else Some obj)"
  using assms
proof (induction events arbitrary: s index)
  case Nil
  then show ?case by (simp add: latest_event_def)
next
  case (Cons e events)
  obtain t obj where e: "e = (t, obj)" by (cases e)
  from Cons.prems e have ok: "index_event t"
    and k: "groupVersionKindKey obj = gvk"
    and rest: "list_all (\<lambda>(type, obj). index_event type \<and> groupVersionKindKey obj = gvk) events"
    by simp_all
  let ?s1 = "snd (startWatch_callback gvk t obj s)"
  from Cons.prems(1) k have "cache ?s1 = AList.update gvk (record_index t obj index) (cache s)"
    using callback_cache [OF ok, of s obj index gvk] by simp
  then have "map_of (cache ?s1) gvk = Some (record_index t obj index)"
    by (simp add: update_conv')
  from Cons.IH [OF this rest] e show ?case
    by (auto simp: latest_event_Cons record_index_def fun_eq_iff split: option.splits)
qed

text \<open>
  Claim C5: for any finite sequence of \<^verbatim>\<open>ADDED\<close>, \<^verbatim>\<open>MODIFIED\<close> and \<^verbatim>\<open>DELETED\<close> events
  of a type, delivered to a cache whose Index for the type is empty, the resulting Index
  of the type is the result of replaying only the latest event of each key: the key is
  absent when that event is a \<^verbatim>\<open>DELETED\<close>, and holds the event's object otherwise.
\<close>

theorem events_converge_to_latest_per_key:
  assumes "map_of (cache s) gvk = Some Map.empty"
    and "list_all (\<lambda>(type, obj). index_event type \<and> groupVersionKindKey obj = gvk) events"
  shows "map_of (cache (deliver gvk events s)) gvk = Some (replay_latest events)"
  using deliver_index [OF assms]
  by (simp add: replay_latest_def fun_eq_iff split: option.splits)

theorem events_converge_to_latest_per_key_witness:
  "map_of (cache (deliver ''v1/Pod''
      [(ADDED, example_pod ''a'' ''1'' ''v1''), (MODIFIED, example_pod ''a'' ''2'' ''v2''),
       (ADDED, example_pod ''b'' ''3'' ''v1''), (DELETED, example_pod ''a'' ''4'' ''v2'')]
      (streaming_cache (Some ''0'')))) ''v1/Pod''
   = Some [''default/b'' \<mapsto> example_pod ''b'' ''3'' ''v1'']"
proof -
  let ?events = "[(ADDED, example_pod ''a'' ''1'' ''v1''), (MODIFIED, example_pod ''a'' ''2'' ''v2''),
       (ADDED, example_pod ''b'' ''3'' ''v1''), (DELETED, example_pod ''a'' ''4'' ''v2'')]"
  have 1: "map_of (cache (streaming_cache (Some ''0''))) ''v1/Pod'' = Some Map.empty"
    by (simp add: streaming_cache_def)
  have 2: "list_all (\<lambda>(type, obj). index_event type \<and> groupVersionKindKey obj = ''v1/Pod'') ?events"
    by (simp add: index_event_def)
  have 3: "replay_latest ?events = [''default/b'' \<mapsto> example_pod ''b'' ''3'' ''v1'']"
    by (auto simp: replay_latest_def latest_event_def fun_eq_iff)
  show ?thesis
    using events_converge_to_latest_per_key [OF 1 2] by (simp only: 3)
qed

text \<open>
  Claim C6, as amended: for every \<^verbatim>\<open>ADDED\<close>, \<^verbatim>\<open>MODIFIED\<close> or \<^verbatim>\<open>DELETED\<close> event whose
  object has a type present in the Index and carries the cursor \<open>C\<close>, received on the
  stream of a type \<open>gvk\<close> that has metadata, the stored resume token of \<open>gvk\<close> is \<open>C\<close>
  after the event, whatever the listeners do (one that throws included); and the token
  is written before the first listener is called: the callback is the loop over the
  listeners, run from a state \<open>s2\<close> in which the token is \<open>C\<close> already.
\<close>

theorem token_advanced_before_listeners:
  assumes "index_event type"
    and "map_of (cache s) (groupVersionKindKey apiObject) = Some index"
    and "metadata s gvk = Some m"
    and "v1_object_meta.resourceVersion (object_header.metadata apiObject) = Some C"
  shows "metadata (snd (startWatch_callback gvk type apiObject s)) gvk
           = Some (m\<lparr>lastResourceVersion := Some C\<rparr>)
       \<and> (\<exists>s2. metadata s2 gvk = Some (m\<lparr>lastResourceVersion := Some C\<rparr>)
              \<and> startWatch_callback gvk type apiObject s =
                  (case listeners s gvk of
                     None \<Rightarrow> (Some TypeError, s2)
                   | Some ls \<Rightarrow> forEach_listeners ls type apiObject s2))"
proof -
  let ?s1 = "s\<lparr>cache := AList.update (groupVersionKindKey apiObject)
                             (record_index type apiObject index) (cache s)\<rparr>"
  let ?s2 = "?s1\<lparr>metadata := (metadata ?s1)(gvk \<mapsto> m\<lparr>lastResourceVersion := Some C\<rparr>)\<rparr>"
  have eq: "startWatch_callback gvk type apiObject s = after_switch gvk type apiObject ?s1"
    by (rule callback_index_event_eq [OF assms(1,2)])
  have b: "startWatch_callback gvk type apiObject s =
             (case listeners s gvk of
                None \<Rightarrow> (Some TypeError, ?s2)
              | Some ls \<Rightarrow> forEach_listeners ls type apiObject ?s2)"
    using assms(3,4) by (simp add: eq after_switch_def Let_def split: option.splits)
  have c: "metadata ?s2 gvk = Some (m\<lparr>lastResourceVersion := Some C\<rparr>)" by simp
  have a: "metadata (snd (startWatch_callback gvk type apiObject s)) gvk
             = Some (m\<lparr>lastResourceVersion := Some C\<rparr>)"
    unfolding b by (simp add: forEach_listeners_frame split: option.splits)
  from a b c show ?thesis by blast
qed

theorem token_advanced_before_listeners_witness:
  "metadata (snd (startWatch_callback ''v1/Pod'' MODIFIED (example_pod ''a'' ''7'' ''v2'')
       (streaming_cache (Some ''5'')))) ''v1/Pod''
     = Some \<lparr>lastResourceVersion = Some ''7'', resourcePath = ''/api/v1/pods''\<rparr>
 \<and> fst (startWatch_callback ''v1/Pod'' MODIFIED (example_pod ''a'' ''7'' ''v2'')
       (streaming_cache (Some ''5''))) = Some (ClientError ''boom'' None)"
proof -
  have 1: "index_event MODIFIED" by (simp add: index_event_def)
  have 2: "map_of (cache (streaming_cache (Some ''5''))) (groupVersionKindKey (example_pod ''a'' ''7'' ''v2''))
             = Some Map.empty"
    by (simp add: streaming_cache_def)
  have 3: "metadata (streaming_cache (Some ''5'')) ''v1/Pod''
             = Some \<lparr>lastResourceVersion = Some ''5'', resourcePath = ''/api/v1/pods''\<rparr>"
    by (simp add: streaming_cache_def)
  have 4: "v1_object_meta.resourceVersion (object_header.metadata (example_pod ''a'' ''7'' ''v2'')) = Some ''7''"
    by (simp add: example_pod_def)
  have 5: "fst (startWatch_callback ''v1/Pod'' MODIFIED (example_pod ''a'' ''7'' ''v2'')
       (streaming_cache (Some ''5''))) = Some (ClientError ''boom'' None)"
    by (simp add: recordObjectModified_def after_switch_def streaming_cache_def Let_def
        faulty_listener_def)
  from token_advanced_before_listeners [OF 1 2 3 4] 5 show ?thesis by simp
qed

text \<open>
  The claim as stated speaks of every event that carries an instance with a cursor. A
  \<^verbatim>\<open>BOOKMARK\<close> event carries one, and the callback treats it as an unknown type (the
  stream is opened with \<^verbatim>\<open>allowWatchBookmarks: false\<close>): with the token \<^verbatim>\<open>5\<close> stored, a
  bookmark with the cursor \<^verbatim>\<open>7\<close> leaves the token at \<^verbatim>\<open>5\<close>.
\<close>

theorem bookmark_does_not_advance_token:
  "v1_object_meta.resourceVersion (object_header.metadata (example_bookmark ''7'')) = Some ''7''
 \<and> map_option lastResourceVersion
      (metadata (snd (startWatch_callback ''v1/Pod'' BOOKMARK (example_bookmark ''7'')
         (streaming_cache (Some ''5'')))) ''v1/Pod'') = Some (Some ''5'')"
  by (simp add: example_bookmark_def streaming_cache_def)

lemma bookmark_leaves_token:
  "metadata (snd (startWatch_callback gvk BOOKMARK apiObject s)) = metadata s"
  by simp

lemma error_event_expired:
  assumes "metadata s gvk = Some m" and "code apiObject = Some 410"
    and "reason apiObject = Some ''Expired''"
  shows "startWatch_callback gvk ERROR apiObject s =
           (None, s\<lparr>metadata := (metadata s)(gvk \<mapsto> m\<lparr>lastResourceVersion := None\<rparr>),
                    trace := trace s @ [RequestAbort]\<rparr>)"
  using assms by (simp add: resourceVersionExpiredCode_def resourceVersionExpiredReason_def)

lemma error_event_other:
  assumes "\<not> (code apiObject = Some 410 \<and> reason apiObject = Some ''Expired'')"
  shows "startWatch_callback gvk ERROR apiObject s =
           (None, s\<lparr>trace := trace s @ [ConsoleError (''Error during watch: Reason: ''
              @ js_string (reason apiObject) @ '' - '' @ js_string (message apiObject))]\<rparr>)"
  using assms
  by (cases "code apiObject = Some 410")
    (simp_all add: resourceVersionExpiredCode_def resourceVersionExpiredReason_def)

text \<open>
  Claim C7: on an \<^verbatim>\<open>ERROR\<close> event whose status has the code 410 and the reason
  \<^verbatim>\<open>Expired\<close>, received on the stream of a type with metadata, the callback returns
  with the resume token of the type cleared and the request aborted, the abort being the
  only new effect (no listener is called), the Index and the listeners as they were. On
  an \<^verbatim>\<open>ERROR\<close> event with any other status the callback returns with one line logged
  and nothing else changed: the Index, the token and the stream stay as they are.
\<close>

theorem error_event_policy:
  "(metadata s gvk = Some m \<and> code apiObject = Some 410 \<and> reason apiObject = Some ''Expired'' \<longrightarrow>
      fst (startWatch_callback gvk ERROR apiObject s) = None
    \<and> metadata (snd (startWatch_callback gvk ERROR apiObject s)) gvk
        = Some (m\<lparr>lastResourceVersion := None\<rparr>)
    \<and> trace (snd (startWatch_callback gvk ERROR apiObject s)) = trace s @ [RequestAbort]
    \<and> cache (snd (startWatch_callback gvk ERROR apiObject s)) = cache s
    \<and> listeners (snd (startWatch_callback gvk ERROR apiObject s)) = listeners s)
 \<and> (\<not> (code apiObject = Some 410 \<and> reason apiObject = Some ''Expired'') \<longrightarrow>
      fst (startWatch_callback gvk ERROR apiObject s) = None
    \<and> (\<exists>text. snd (startWatch_callback gvk ERROR apiObject s)
                  = s\<lparr>trace := trace s @ [ConsoleError text]\<rparr>))"
proof (intro conjI impI)
  assume a: "metadata s gvk = Some m \<and> code apiObject = Some 410 \<and> reason apiObject = Some ''Expired''"
  then have e: "startWatch_callback gvk ERROR apiObject s =
           (None, s\<lparr>metadata := (metadata s)(gvk \<mapsto> m\<lparr>lastResourceVersion := None\<rparr>),
                    trace := trace s @ [RequestAbort]\<rparr>)"
    using error_event_expired [of s gvk m apiObject] by blast
  show "fst (startWatch_callback gvk ERROR apiObject s) = None" by (simp only: e fst_conv)
  show "metadata (snd (startWatch_callback gvk ERROR apiObject s)) gvk
        = Some (m\<lparr>lastResourceVersion := None\<rparr>)" unfolding e by simp
  show "trace (snd (startWatch_callback gvk ERROR apiObject s)) = trace s @ [RequestAbort]"
    unfolding e by simp
  show "cache (snd (startWatch_callback gvk ERROR apiObject s)) = cache s" unfolding e by simp
  show "listeners (snd (startWatch_callback gvk ERROR apiObject s)) = listeners s" unfolding e by simp
next
  assume b: "\<not> (code apiObject = Some 410 \<and> reason apiObject = Some ''Expired'')"
  show "fst (startWatch_callback gvk ERROR apiObject s) = None"
    by (simp only: error_event_other [OF b] fst_conv)
  show "\<exists>text. snd (startWatch_callback gvk ERROR apiObject s)
                  = s\<lparr>trace := trace s @ [ConsoleError text]\<rparr>"
    by (simp only: error_event_other [OF b] snd_conv) (rule exI, rule refl)
qed

theorem error_event_policy_witness:
  "metadata (snd (startWatch_callback ''v1/Pod'' ERROR (example_status 410 ''Expired'')
       (streaming_cache (Some ''5'')))) ''v1/Pod''
     = Some \<lparr>lastResourceVersion = None, resourcePath = ''/api/v1/pods''\<rparr>
 \<and> trace (snd (startWatch_callback ''v1/Pod'' ERROR (example_status 410 ''Expired'')
       (streaming_cache (Some ''5'')))) = [RequestAbort]
 \<and> cache (snd (startWatch_callback ''v1/Pod'' ERROR (example_status 410 ''Expired'')
       (streaming_cache (Some ''5'')))) = cache (streaming_cache (Some ''5''))
 \<and> (\<exists>text. snd (startWatch_callback ''v1/Pod'' ERROR (example_status 500 ''InternalError'')
       (streaming_cache (Some ''5'')))
       = (streaming_cache (Some ''5''))\<lparr>trace := [ConsoleError text]\<rparr>)"
proof -
  have 1: "metadata (streaming_cache (Some ''5'')) ''v1/Pod''
             = Some \<lparr>lastResourceVersion = Some ''5'', resourcePath = ''/api/v1/pods''\<rparr>
           \<and> code (example_status 410 ''Expired'') = Some 410
           \<and> reason (example_status 410 ''Expired'') = Some ''Expired''"
    by (simp add: streaming_cache_def example_status_def)
  have 2: "\<not> (code (example_status 500 ''InternalError'') = Some 410
              \<and> reason (example_status 500 ''InternalError'') = Some ''Expired'')"
    by (simp add: example_status_def)
  have t: "trace (streaming_cache (Some ''5'')) = []" by (simp add: streaming_cache_def)
  from 1 2 t
    error_event_policy [of "streaming_cache (Some ''5'')" "''v1/Pod''"
        "\<lparr>lastResourceVersion = Some ''5'', resourcePath = ''/api/v1/pods''\<rparr>"
        "example_status 410 ''Expired''"]
    error_event_policy [of "streaming_cache (Some ''5'')" "''v1/Pod''"
        "\<lparr>lastResourceVersion = Some ''5'', resourcePath = ''/api/v1/pods''\<rparr>"
        "example_status 500 ''InternalError''"]
  show ?thesis by simp
qed

section \<open>Registering listeners\<close>

lemma addListener_started:
  "has (cacheSync s) \<Longrightarrow> addListener object cb s = (Some CacheAlreadyStarted, s)"
  by (simp add: addListener_def)

lemma after_start_has_cacheSync: "after_start s \<Longrightarrow> has (cacheSync s)"
proof (induction rule: after_start.induct)
  case (started s)
  then show ?case by (simp add: start_def has_def)
next
  case (register s object cb)
  then show ?case by (simp add: addListener_started)
qed (simp_all add: startSync_cacheSync startWatch_cacheSync callback_cacheSync startWatch_done_cacheSync)

lemma addListener_before_start:
  assumes "cacheSync s = None"
  shows "addListener object cb s =
     (None, s\<lparr>listeners := (listeners s)(groupVersionKindKey object \<mapsto>
                (case listeners s (groupVersionKindKey object) of None \<Rightarrow> [] | Some ls \<Rightarrow> ls) @ [cb]),
              cache := (case listeners s (groupVersionKindKey object) of
                          None \<Rightarrow> AList.update (groupVersionKindKey object) Map.empty (cache s)
                        | Some ls \<Rightarrow> cache s)\<rparr>)"
  using assms by (auto simp: addListener_def has_def Let_def split: option.splits)

text \<open>
  Claim C8: in every state after \<^verbatim>\<open>start()\<close>, \<^verbatim>\<open>addListener\<close> throws its error and
  leaves the whole state, the listeners and the Index with it, unchanged. Before
  \<^verbatim>\<open>start()\<close> it returns, the listeners of the type are the earlier ones followed by the
  new callback, and the listeners of every other type are as they were.
\<close>

theorem addListener_rejected_after_start:
  "(after_start s \<longrightarrow> addListener object cb s = (Some CacheAlreadyStarted, s))
 \<and> (cacheSync s = None \<longrightarrow>
      fst (addListener object cb s) = None
    \<and> listeners (snd (addListener object cb s)) (groupVersionKindKey object)
        = Some ((case listeners s (groupVersionKindKey object) of None \<Rightarrow> [] | Some ls \<Rightarrow> ls) @ [cb])
    \<and> (\<forall>gvk. gvk \<noteq> groupVersionKindKey object \<longrightarrow>
          listeners (snd (addListener object cb s)) gvk = listeners s gvk))"
proof (intro conjI impI allI)
  assume "after_start s"
  then show "addListener object cb s = (Some CacheAlreadyStarted, s)"
    by (simp add: after_start_has_cacheSync addListener_started)
next
  assume n: "cacheSync s = None"
  show "fst (addListener object cb s) = None"
    unfolding addListener_before_start [OF n] by simp
  show "listeners (snd (addListener object cb s)) (groupVersionKindKey object)
        = Some ((case listeners s (groupVersionKindKey object) of None \<Rightarrow> [] | Some ls \<Rightarrow> ls) @ [cb])"
    unfolding addListener_before_start [OF n] by simp
  fix gvk assume "gvk \<noteq> groupVersionKindKey object"
  then show "listeners (snd (addListener object cb s)) gvk = listeners s gvk"
    unfolding addListener_before_start [OF n] by simp
qed

theorem addListener_rejected_after_start_witness:
  "addListener pod_kind quiet_listener (snd (startSync two_pods_client (start registered_cache)))
     = (Some CacheAlreadyStarted, snd (startSync two_pods_client (start registered_cache)))
 \<and> listeners (snd (addListener pod_kind quiet_listener registered_cache)) ''v1/Pod''
     = Some [faulty_listener, quiet_listener]"
proof -
  have 1: "after_start (snd (startSync two_pods_client (start registered_cache)))"
    by (intro after_start.flows after_start.started)
  have 2: "cacheSync registered_cache = None" by (simp add: registered_cache_def)
  have 3: "groupVersionKindKey pod_kind = ''v1/Pod''"
    by (simp add: groupVersionKindKey_def pod_kind_def)
  have 4: "listeners registered_cache ''v1/Pod'' = Some [faulty_listener]"
    by (simp add: registered_cache_def)
  from 1 2 
    addListener_rejected_after_start [of "snd (startSync two_pods_client (start registered_cache))"
      pod_kind quiet_listener]
    addListener_rejected_after_start [of registered_cache pod_kind quiet_listener]
  show ?thesis by (simp add: 3 4)
qed

section \<open>The key of a resource type\<close>

text \<open>
  Claim C9 says that parsing the joined key gives back \<^verbatim>\<open>apiVersion\<close> and \<^verbatim>\<open>kind\<close>, also
  for an \<^verbatim>\<open>apiVersion\<close> of the form \<^verbatim>\<open><apiGroup>/<version>\<close>. \<^verbatim>\<open>parseGroupVersionKind\<close>
  splits the key at every separator and takes the first two pieces, so the key is
  inverted exactly when neither component contains the separator: for the
  \<^verbatim>\<open>apiVersion\<close> \<^verbatim>\<open>apps/v1\<close> the claim does not hold of the code.
\<close>

theorem parseGroupVersionKind_inverts_iff:
  "parseGroupVersionKind (groupVersionKindKey obj) = (Some (apiVersion obj), Some (kind obj))
     \<longleftrightarrow> CHR ''/'' \<notin> set (apiVersion obj) \<and> CHR ''/'' \<notin> set (kind obj)"
proof
  assume r: "parseGroupVersionKind (groupVersionKindKey obj) = (Some (apiVersion obj), Some (kind obj))"
  let ?k = "apiVersion obj @ CHR ''/'' # kind obj"
  from r have a: "js_index (js_split CHR ''/'' ?k) 0 = Some (apiVersion obj)"
    and b: "js_index (js_split CHR ''/'' ?k) (Suc 0) = Some (kind obj)"
    by (simp_all add: parseGroupVersionKind_def groupVersionKindKey_eq Let_def)
  from a have na: "CHR ''/'' \<notin> set (apiVersion obj)"
    by (auto simp add: js_split_hd takeWhile_sep_append)
  with b have "js_index (js_split CHR ''/'' (kind obj)) 0 = Some (kind obj)"
    by (simp add: js_split_append js_index_Suc)
  then have "CHR ''/'' \<notin> set (kind obj)"
    by (auto simp add: js_split_hd)
  with na show "CHR ''/'' \<notin> set (apiVersion obj) \<and> CHR ''/'' \<notin> set (kind obj)" by simp
next
  assume "CHR ''/'' \<notin> set (apiVersion obj) \<and> CHR ''/'' \<notin> set (kind obj)"
  then show "parseGroupVersionKind (groupVersionKindKey obj) = (Some (apiVersion obj), Some (kind obj))"
    by (simp add: parseGroupVersionKind_def groupVersionKindKey_eq Let_def js_split_append
        js_split_no_sep js_index_def)
qed

theorem parseGroupVersionKind_grouped_witness:
  "parseGroupVersionKind (groupVersionKindKey \<lparr>apiVersion = ''apps/v1'', kind = ''Deployment''\<rparr>)
     \<noteq> (Some ''apps/v1'', Some ''Deployment'')
 \<and> parseGroupVersionKind (groupVersionKindKey \<lparr>apiVersion = ''v1'', kind = ''Pod''\<rparr>)
     = (Some ''v1'', Some ''Pod'')"
  using parseGroupVersionKind_inverts_iff [of "\<lparr>apiVersion = ''apps/v1'', kind = ''Deployment''\<rparr>"]
    parseGroupVersionKind_inverts_iff [of "\<lparr>apiVersion = ''v1'', kind = ''Pod''\<rparr>"]
  by simp

lemma parseGroupVersionKind_grouped:
  "parseGroupVersionKind (groupVersionKindKey \<lparr>apiVersion = ''apps/v1'', kind = ''Deployment''\<rparr>)
     = (Some ''apps'', Some ''v1'')"
  by (simp add: parseGroupVersionKind_def groupVersionKindKey_def js_index_def)

section \<open>The cache-backed client\<close>

lemma isNotFoundError_iff:
  "isNotFoundError e \<longleftrightarrow>
     (\<exists>msg r m. e = ClientError msg (Some \<lparr>error_body.code = Some 404, error_body.reason = Some r, error_body.message = Some m\<rparr>))"
proof (cases e)
  case (ClientError msg b)
  show ?thesis
  proof (cases b)
    case None
    with ClientError show ?thesis
      by (simp add: isNotFoundError_def isKubernetesError_def body_of_def has_def)
  next
    case (Some body)
    obtain c r m where body: "body = \<lparr>error_body.code = c, error_body.reason = r, error_body.message = m\<rparr>" by (cases body) simp
    with ClientError Some show ?thesis
      by (auto simp: isNotFoundError_def isKubernetesError_def body_of_def has_def)
  qed
qed (simp_all add: isNotFoundError_def isKubernetesError_def body_of_def has_def)

text \<open>
  Claim C10: \<^verbatim>\<open>CachedKubeClient.get\<close> reads from the cache first. The remote store is
  read if and only if the cache read fails with a not-found error (an error whose body
  has a code, a reason and a message, the code being 404); then the result is that of
  the remote read. A cache read that succeeds is the result, and any other error of the
  cache read is thrown again as it is, in both cases with no remote read.
\<close>

theorem CachedKubeClient_get_falls_back_on_404_only:
  "(snd (CachedKubeClient_get cache_get api_read spec) \<noteq> []
      \<longleftrightarrow> (\<exists>e. cache_get spec = Inl e \<and> isNotFoundError e))
 \<and> (\<forall>v. cache_get spec = Inr v \<longrightarrow>
        CachedKubeClient_get cache_get api_read spec = (Inr v, []))
 \<and> (\<forall>e. cache_get spec = Inl e \<and> isNotFoundError e \<longrightarrow>
        CachedKubeClient_get cache_get api_read spec = DefaultKubeClient_get api_read spec
      \<and> snd (CachedKubeClient_get cache_get api_read spec) = [ApiRead spec])
 \<and> (\<forall>e. cache_get spec = Inl e \<and> \<not> isNotFoundError e \<longrightarrow>
        CachedKubeClient_get cache_get api_read spec = (Inl e, []))"
  by (cases "cache_get spec")
    (auto simp: CachedKubeClient_get_def DefaultKubeClient_get_def split: sum.splits)

theorem CachedKubeClient_get_falls_back_on_404_only_witness:
  "CachedKubeClient_get
     (\<lambda>spec. Inl (ClientError ''gone''
        (Some \<lparr>error_body.code = Some 404, error_body.reason = Some ''NotFound'',
               error_body.message = Some ''pod not found''\<rparr>)))
     (\<lambda>spec. Inr (example_pod ''a'' ''9'' ''remote'')) (example_pod ''a'' ''1'' ''local'')
   = (Inr (example_pod ''a'' ''9'' ''remote''), [ApiRead (example_pod ''a'' ''1'' ''local'')])
 \<and> CachedKubeClient_get (\<lambda>spec. Inl NotFound)
     (\<lambda>spec. Inr (example_pod ''a'' ''9'' ''remote'')) (example_pod ''a'' ''1'' ''local'')
   = (Inl NotFound, [])
 \<and> CachedKubeClient_get (\<lambda>spec. Inr (example_pod ''a'' ''2'' ''cached''))
     (\<lambda>spec. Inr (example_pod ''a'' ''9'' ''remote'')) (example_pod ''a'' ''1'' ''local'')
   = (Inr (example_pod ''a'' ''2'' ''cached''), [])"
proof -
  let ?gone = "ClientError ''gone''
        (Some \<lparr>error_body.code = Some 404, error_body.reason = Some ''NotFound'',
               error_body.message = Some ''pod not found''\<rparr>)"
  let ?remote = "\<lambda>spec :: kubernetes_object. (Inr (example_pod ''a'' ''9'' ''remote'') :: error + kubernetes_object)"
  let ?spec = "example_pod ''a'' ''1'' ''local''"
  have 1: "isNotFoundError ?gone"
    by (simp add: isNotFoundError_def isKubernetesError_def body_of_def has_def)
  have 2: "\<not> isNotFoundError NotFound"
    by (simp add: isNotFoundError_def isKubernetesError_def body_of_def has_def)
  have 3: "DefaultKubeClient_get ?remote ?spec = (Inr (example_pod ''a'' ''9'' ''remote''), [ApiRead ?spec])"
    by (simp add: DefaultKubeClient_get_def Object_assign_def example_pod_def)
  from 1 2 3
    CachedKubeClient_get_falls_back_on_404_only [of "\<lambda>spec. Inl ?gone" ?remote ?spec]
    CachedKubeClient_get_falls_back_on_404_only [of "\<lambda>spec. Inl NotFound" ?remote ?spec]
    CachedKubeClient_get_falls_back_on_404_only [of "\<lambda>spec. Inr (example_pod ''a'' ''2'' ''cached'')" ?remote ?spec]
  show ?thesis by simp
qed

end
